theory Spec2Isabelle
  imports Complex_Main "HOL-Library.Sublist"
begin

section \<open>Python values and exceptions\<close>

text \<open>
  The exceptions that the tool layer, the service layer and the HTTP handler raise, catch
  and translate.  Each class that some \<open>except\<close> or \<open>isinstance\<close> of the
  source tells apart is a constructor; the argument is the message (\<open>str(e)\<close>).
  \<open>NotFound\<close> and \<open>InternalServerError\<close> are the HTTP exceptions of the web framework
  (\<open>abort(404)\<close>, \<open>abort(500)\<close>, and what \<open>send_from_directory\<close> raises for an absent
  file); they derive from \<open>Exception\<close> and not from \<open>FileNotFoundError\<close>.
\<close>

datatype py_exn =
    ValueError string
  | RuntimeError string
  | TypeError string
  | KeyError string
  | IndexError string
  | AttributeError string
  | FileNotFoundError string
  | FileExistsError string
  | OSError string
  | OverflowError string
  | MockMCPServerError string
  | NotFound
  | InternalServerError




text \<open>A float is finite or one of the three special values; rounding is not modelled.\<close>

datatype pyfloat = Finite rat | PosInf | NegInf | NaN

text \<open>The values a JSON request can carry.\<close>

datatype pyval =
    PNone
  | PBool bool
  | PInt int
  | PFloat pyfloat
  | PStr string
  | PList "pyval list"
  | PDict "(string \<times> pyval) list"


fun type_name :: "pyval \<Rightarrow> string" where
  "type_name PNone = ''NoneType''"
| "type_name (PBool b) = ''bool''"
| "type_name (PInt i) = ''int''"
| "type_name (PFloat f) = ''float''"
| "type_name (PStr s) = ''str''"
| "type_name (PList xs) = ''list''"
| "type_name (PDict kvs) = ''dict''"

section \<open>Strings\<close>

text \<open>\<open>s.split(c)\<close>: the pieces between the occurrences of \<open>c\<close>, at least one piece.\<close>

fun split_on :: "char \<Rightarrow> string \<Rightarrow> string list" where
  "split_on c [] = [[]]"
| "split_on c (x # xs) =
     (if x = c then [] # split_on c xs
      else (case split_on c xs of
              [] \<Rightarrow> [[x]]
            | p # ps \<Rightarrow> (x # p) # ps))"

text \<open>\<open>s.split(c, 1)\<close> and \<open>s.partition(c)\<close>: the text before the first \<open>c\<close> and the text after it.\<close>

definition before :: "char \<Rightarrow> string \<Rightarrow> string" where
  "before c s = takeWhile (\<lambda>x. x \<noteq> c) s"

definition after :: "char \<Rightarrow> string \<Rightarrow> string" where
  "after c s = drop 1 (dropWhile (\<lambda>x. x \<noteq> c) s)"

text \<open>A text between single quotes.\<close>

definition quoted :: "string \<Rightarrow> string" where
  "quoted s = CHR 0x27 # s @ [CHR 0x27]"

text \<open>\<open>s.startswith(t)\<close>.\<close>

definition startswith :: "string \<Rightarrow> string \<Rightarrow> bool" where
  "startswith s t = (take (length t) s = t)"

text \<open>The decimal representation of an integer, as an f-string prints it.\<close>

definition digit_char :: "nat \<Rightarrow> char" where
  "digit_char d = ''0123456789'' ! (d mod 10)"

function str_nat :: "nat \<Rightarrow> string" where
  "str_nat n = (if n < 10 then [digit_char n] else str_nat (n div 10) @ [digit_char n])"
  by pat_completeness auto
termination
  by (relation "measure id") auto

declare str_nat.simps [simp del]

definition str_int :: "int \<Rightarrow> string" where
  "str_int i = (if i < 0 then CHR ''-'' # str_nat (nat (- i)) else str_nat (nat i))"

section \<open>Configuration\<close>

text \<open>
  \<open>config.py\<close>: the advertised host and port and the artifact directory.  A path is the
  list of its components below the root; \<open>TEMP_AUDIO_DIR\<close> is
  \<open>BASE_DIR / "temp_audio"\<close>, whatever the installation directory is.
\<close>

type_synonym ppath = "string list"

record config =
  HTTP_HOST :: string
  HTTP_PORT :: int
  TEMP_AUDIO_DIR :: ppath

section \<open>URIs\<close>

subsection \<open>Building (\<open>generate_speech_tool\<close>, line 137)\<close>

definition audio_uri_of :: "config \<Rightarrow> string \<Rightarrow> string" where
  "audio_uri_of cfg name =
     ''http://'' @ HTTP_HOST cfg @ '':'' @ str_int (HTTP_PORT cfg) @ ''/audio/'' @ name"

subsection \<open>Parsing (\<open>urllib.parse.urlparse\<close>)\<close>

text \<open>
  The checks of \<open>urlsplit\<close> that need Unicode tables or an IPv6 parser are parameters:
  \<open>check_bracketed_host\<close> is consulted for a network location with both brackets,
  \<open>checknetloc\<close> for one with a non-ASCII character; each returns the message of the
  \<open>ValueError\<close> it raises, or \<open>None\<close>.  \<open>parse_float\<close> is \<open>float\<close> on a string and
  \<open>float_of_int\<close> is \<open>float\<close> on an integer (\<open>None\<close>: it raises), \<open>str_of\<close> is
  \<open>str\<close> on a value that is printed into a message, \<open>bind_error\<close> is the message of
  the \<open>TypeError\<close> of a call whose arguments do not fit the function's parameters.
\<close>

record pylib =
  check_bracketed_host :: "string \<Rightarrow> string option"
  checknetloc :: "string \<Rightarrow> string option"
  parse_float :: "string \<Rightarrow> pyfloat option"
  float_of_int :: "int \<Rightarrow> pyfloat option"
  str_of :: "pyval \<Rightarrow> string"
  bind_error :: "string \<Rightarrow> pyval \<Rightarrow> string"

record parse_result =
  scheme :: string
  netloc :: string
  path :: string
  params :: string
  query :: string
  fragment :: string

definition scheme_chars :: string where
  "scheme_chars = ''abcdefghijklmnopqrstuvwxyzABCDEFGHIJKLMNOPQRSTUVWXYZ0123456789+-.''"

definition ascii_letters :: string where
  "ascii_letters = ''abcdefghijklmnopqrstuvwxyzABCDEFGHIJKLMNOPQRSTUVWXYZ''"

definition lower :: "char \<Rightarrow> char" where
  "lower c = (case map_of (zip ''ABCDEFGHIJKLMNOPQRSTUVWXYZ'' ''abcdefghijklmnopqrstuvwxyz'') c of
                None \<Rightarrow> c | Some l \<Rightarrow> l)"

definition is_ascii :: "char \<Rightarrow> bool" where
  "is_ascii c = ((of_char c :: nat) < 128)"

text \<open>\<open>_WHATWG_C0_CONTROL_OR_SPACE\<close>: the characters up to the space.\<close>

definition c0_control_or_space :: "char \<Rightarrow> bool" where
  "c0_control_or_space c = ((of_char c :: nat) \<le> 32)"

text \<open>\<open>_UNSAFE_URL_BYTES_TO_REMOVE\<close>: tab, carriage return, line feed.\<close>

definition unsafe_url_byte :: "char \<Rightarrow> bool" where
  "unsafe_url_byte c = (c = CHR 0x09 \<or> c = CHR 0x0D \<or> c = CHR 0x0A)"

definition uses_params :: "string list" where
  "uses_params = ['''', ''ftp'', ''hdl'', ''prospero'', ''http'', ''imap'', ''https'', ''shttp'',
                  ''rtsp'', ''rtsps'', ''rtspu'', ''sip'', ''sips'', ''mms'', ''sftp'', ''tel'']"

text \<open>The scheme, when the text before the first colon is a non-empty run of scheme
  characters that starts with a letter.\<close>

definition split_scheme :: "string \<Rightarrow> string \<times> string" where
  "split_scheme url =
     (let s = before CHR '':'' url in
      if CHR '':'' \<in> set url \<and> s \<noteq> [] \<and> hd s \<in> set ascii_letters
         \<and> (\<forall>c \<in> set s. c \<in> set scheme_chars)
      then (map lower s, after CHR '':'' url)
      else ([], url))"

text \<open>\<open>_splitnetloc(url, 2)\<close>: up to the first of \<open>/ ? #\<close>.\<close>

definition netloc_delim :: "char \<Rightarrow> bool" where
  "netloc_delim c = (c = CHR ''/'' \<or> c = CHR ''?'' \<or> c = CHR ''#'')"

definition splitnetloc :: "string \<Rightarrow> string \<times> string" where
  "splitnetloc url =
     (takeWhile (\<lambda>c. \<not> netloc_delim c) (drop 2 url),
      dropWhile (\<lambda>c. \<not> netloc_delim c) (drop 2 url))"

definition check_netloc :: "pylib \<Rightarrow> string \<Rightarrow> string option" where
  "check_netloc lib nl =
     (let l = (CHR ''['' \<in> set nl); r = (CHR '']'' \<in> set nl) in
      if (l \<and> \<not> r) \<or> (r \<and> \<not> l) then Some ''Invalid IPv6 URL''
      else (case (if l \<and> r then check_bracketed_host lib (before CHR '']'' (after CHR ''['' nl))
                  else None) of
              Some m \<Rightarrow> Some m
            | None \<Rightarrow> (if nl = [] \<or> (\<forall>c \<in> set nl. is_ascii c) then None
                       else checknetloc lib nl)))"

text \<open>\<open>_splitparams\<close>: the parameters start at the first semicolon of the last segment.\<close>

definition splitparams :: "string \<Rightarrow> string \<times> string" where
  "splitparams url =
     (if CHR ''/'' \<in> set url then
        (let seg = rev (takeWhile (\<lambda>c. c \<noteq> CHR ''/'') (rev url));
             front = take (length url - length seg) url in
         if CHR '';'' \<in> set seg
         then (front @ before CHR '';'' seg, after CHR '';'' seg)
         else (url, []))
      else (before CHR '';'' url, after CHR '';'' url))"

definition urlparse :: "pylib \<Rightarrow> string \<Rightarrow> py_exn + parse_result" where
  "urlparse lib url0 =
     (let url1 = filter (\<lambda>c. \<not> unsafe_url_byte c) (dropWhile c0_control_or_space url0);
          (sch, url2) = split_scheme url1;
          (nl, url3) = (if take 2 url2 = ''//'' then splitnetloc url2 else ([], url2))
      in case check_netloc lib nl of
           Some m \<Rightarrow> Inl (ValueError m)
         | None \<Rightarrow>
            (let (url4, frag) =
                   (if CHR ''#'' \<in> set url3 then (before CHR ''#'' url3, after CHR ''#'' url3)
                    else (url3, []));
                 (url5, q) =
                   (if CHR ''?'' \<in> set url4 then (before CHR ''?'' url4, after CHR ''?'' url4)
                    else (url4, []));
                 (url6, ps) =
                   (if sch \<in> set uses_params \<and> CHR '';'' \<in> set url5 then splitparams url5
                    else (url5, []))
             in Inr \<lparr> scheme = sch, netloc = nl, path = url6, params = ps,
                      query = q, fragment = frag \<rparr>))"

subsection \<open>Path names (\<open>pathlib\<close>)\<close>

text \<open>
  The parts of a path string: the pieces between the separators, without the empty ones
  and without \<open>.\<close>; \<open>..\<close> stays.  \<open>Path(s).name\<close> is the last part, or the empty string.
\<close>

definition path_parts :: "string \<Rightarrow> string list" where
  "path_parts s = filter (\<lambda>p. p \<noteq> [] \<and> p \<noteq> ''.'') (split_on CHR ''/'' s)"

definition path_name :: "string \<Rightarrow> string" where
  "path_name s = (case path_parts s of [] \<Rightarrow> [] | p # ps \<Rightarrow> last (p # ps))"

text \<open>
  Lines 160 to 166 of \<open>cleanup_audio_tool\<close>: the candidate file name of an audio URI.
\<close>

definition uri_filename :: "pylib \<Rightarrow> string \<Rightarrow> py_exn + string" where
  "uri_filename lib audio_uri =
     (case urlparse lib audio_uri of
        Inl e \<Rightarrow> Inl e
      | Inr parsed_uri \<Rightarrow>
          if \<not> (scheme parsed_uri \<noteq> [] \<and> netloc parsed_uri \<noteq> [] \<and> path parsed_uri \<noteq> [])
          then Inl (ValueError ''Invalid audio URI format'')
          else (let filename = path_name (path parsed_uri) in
                if filename = [] then Inl (ValueError ''Could not extract filename from URI path'')
                else Inr filename))"

subsection \<open>Names of the temporary-file allocator\<close>

text \<open>
  \<open>tempfile.mkstemp(suffix=".wav", dir=TEMP_AUDIO_DIR)\<close> names a file \<open>tmp\<close>, eight
  characters of the allocator's alphabet, and the suffix.
\<close>

definition name_characters :: string where
  "name_characters = ''abcdefghijklmnopqrstuvwxyz0123456789_''"

definition mkstemp_name :: "string \<Rightarrow> string" where
  "mkstemp_name r = ''tmp'' @ r @ ''.wav''"

section \<open>File system\<close>

text \<open>
  A node is a regular file with its content, a directory, or a symbolic link with its
  target text.  The file system maps real paths (no link below the root, no \<open>.\<close> or
  \<open>..\<close>) to nodes.  \<open>link_budget\<close> bounds the links one resolution may follow:
  running out of it is the symbolic-link loop of the operating system.
\<close>

datatype node = RegFile string | Directory | Symlink string

record filesystem =
  nodes :: "ppath \<Rightarrow> node option"
  link_budget :: nat

definition str_path :: "ppath \<Rightarrow> string" where
  "str_path p = (if p = [] then ''/'' else concat (map (\<lambda>c. CHR ''/'' # c) p))"

text \<open>
  \<open>os.path.realpath\<close> (not strict), as \<open>_joinrealpath\<close> walks it: empty and \<open>.\<close>
  components are skipped, \<open>..\<close> drops the last component, a component that is a link is
  replaced by its target (from the root when the target is absolute), anything else,
  present or not, is appended.
\<close>

fun joinrealpath :: "nat \<Rightarrow> (ppath \<Rightarrow> node option) \<Rightarrow> ppath \<Rightarrow> string list \<Rightarrow> ppath option" where
  "joinrealpath n fs p [] = Some p"
| "joinrealpath n fs p (name # rest) =
     (if name = [] \<or> name = ''.'' then joinrealpath n fs p rest
      else if name = ''..'' then joinrealpath n fs (butlast p) rest
      else (case fs (p @ [name]) of
              Some (Symlink t) \<Rightarrow>
                (case n of
                   0 \<Rightarrow> None
                 | Suc m \<Rightarrow>
                     joinrealpath m fs (if take 1 t = ''/'' then [] else p)
                       (split_on CHR ''/'' t @ rest))
            | _ \<Rightarrow> joinrealpath n fs (p @ [name]) rest))"

definition realpath :: "filesystem \<Rightarrow> ppath \<Rightarrow> ppath option" where
  "realpath fs p = joinrealpath (link_budget fs) (nodes fs) [] p"

text \<open>\<open>Path.resolve()\<close>: the real path, or \<open>RuntimeError\<close> for a link loop.\<close>

definition resolve :: "filesystem \<Rightarrow> ppath \<Rightarrow> py_exn + ppath" where
  "resolve fs p =
     (case realpath fs p of
        None \<Rightarrow> Inl (RuntimeError (''Symlink loop from '' @ quoted (str_path p)))
      | Some q \<Rightarrow> Inr q)"

text \<open>\<open>os.stat\<close> follows links; a missing file and a link loop both give nothing.\<close>

definition stat :: "filesystem \<Rightarrow> ppath \<Rightarrow> node option" where
  "stat fs p = (case realpath fs p of None \<Rightarrow> None | Some q \<Rightarrow> nodes fs q)"

text \<open>\<open>Path.is_file()\<close> and \<open>os.path.isfile\<close>.\<close>

definition is_file :: "filesystem \<Rightarrow> ppath \<Rightarrow> bool" where
  "is_file fs p = (case stat fs p of Some (RegFile b) \<Rightarrow> True | _ \<Rightarrow> False)"

text \<open>\<open>Path.joinpath\<close> with a string: an absolute string replaces the path.\<close>

definition joinpath :: "ppath \<Rightarrow> string \<Rightarrow> ppath" where
  "joinpath p s = (if take 1 s = ''/'' then path_parts s else p @ path_parts s)"

text \<open>\<open>Path.name\<close> of a path object.\<close>

definition name_of :: "ppath \<Rightarrow> string" where
  "name_of p = (if p = [] then [] else last p)"


text \<open>\<open>b in a.parents\<close>: \<open>b\<close> is a proper ancestor of \<open>a\<close>.\<close>

definition in_parents :: "ppath \<Rightarrow> ppath \<Rightarrow> bool" where
  "in_parents b a = strict_prefix b a"




subsection \<open>The temporary-file allocator (\<open>tempfile.mkstemp\<close>)\<close>





section \<open>The synthesis service (\<open>kokoro_service.py\<close>)\<close>

type_synonym audio = "int list"












section \<open>The tools (\<open>main.py\<close>)\<close>


subsection \<open>\<open>list_voices\<close>\<close>


subsection \<open>\<open>generate_speech\<close>\<close>




subsection \<open>\<open>cleanup_audio\<close>\<close>





section \<open>The dispatcher (\<open>MockMCPServer._handle_request\<close>)\<close>











section \<open>The artifact server (\<open>http_server.py\<close>)\<close>

datatype body = Text string | FileContent string | ErrorPage

record response =
  status :: nat
  mimetype :: string
  body :: body

definition not_found_text :: response where
  "not_found_text = \<lparr> status = 404, mimetype = ''text/html'', body = Text ''Not Found'' \<rparr>"

text \<open>
  \<open>send_from_directory(directory, name, mimetype=...)\<close> for a name without separator:
  the joined path is refused when the name is \<open>..\<close>, it must be a file, and the file is
  opened and sent.  With the response comes the list of the real paths of the files that
  were opened.
\<close>

definition send_from_directory ::
  "filesystem \<Rightarrow> ppath \<Rightarrow> string \<Rightarrow> string \<Rightarrow> (py_exn + response) \<times> ppath list" where
  "send_from_directory fs directory name mt =
     (if name = ''..'' then (Inl NotFound, [])
      else (let p = directory @ path_parts name in
            case realpath fs p of
              None \<Rightarrow> (Inl NotFound, [])
            | Some q \<Rightarrow>
                (case nodes fs q of
                   Some (RegFile bytes) \<Rightarrow>
                     (Inr \<lparr> status = 200, mimetype = mt, body = FileContent bytes \<rparr>, [q])
                 | _ \<Rightarrow> (Inl NotFound, []))))"

text \<open>Lines 33 to 46, the body of the \<open>try\<close>.\<close>

definition serve_body :: "config \<Rightarrow> filesystem \<Rightarrow> string \<Rightarrow> (py_exn + response) \<times> ppath list" where
  "serve_body cfg fs filename =
     (case resolve fs (joinpath (TEMP_AUDIO_DIR cfg) filename) of
        Inl e \<Rightarrow> (Inl e, [])
      | Inr requested_path \<Rightarrow>
          if \<not> is_file fs requested_path then (Inr not_found_text, [])
          else (case resolve fs (TEMP_AUDIO_DIR cfg) of
                  Inl e \<Rightarrow> (Inl e, [])
                | Inr base \<Rightarrow>
                    if \<not> in_parents base requested_path then (Inr not_found_text, [])
                    else send_from_directory fs base (name_of requested_path) ''audio/wav''))"

text \<open>Lines 47 to 53: \<open>abort(404)\<close> for \<open>FileNotFoundError\<close>, \<open>abort(500)\<close> for the rest.\<close>

fun serve_except :: "py_exn \<Rightarrow> py_exn" where
  "serve_except (FileNotFoundError m) = NotFound"
| "serve_except e = InternalServerError"

definition serve_audio :: "config \<Rightarrow> filesystem \<Rightarrow> string \<Rightarrow> (py_exn + response) \<times> ppath list" where
  "serve_audio cfg fs filename =
     (if startswith filename ''/'' \<or> startswith filename [CHR 0x5C] then (Inr not_found_text, [])
      else if startswith filename ''%2F'' \<or> startswith filename ''%5C'' then (Inr not_found_text, [])
      else (case serve_body cfg fs filename of
              (Inl e, opened) \<Rightarrow> (Inl (serve_except e), opened)
            | (Inr r, opened) \<Rightarrow> (Inr r, opened)))"

text \<open>What the framework sends for the view's outcome: an HTTP exception becomes its page.\<close>

fun flask_response :: "py_exn + response \<Rightarrow> response" where
  "flask_response (Inr r) = r"
| "flask_response (Inl NotFound) = \<lparr> status = 404, mimetype = ''text/html'', body = ErrorPage \<rparr>"
| "flask_response (Inl e) = \<lparr> status = 500, mimetype = ''text/html'', body = ErrorPage \<rparr>"

definition get_audio :: "config \<Rightarrow> filesystem \<Rightarrow> string \<Rightarrow> response" where
  "get_audio cfg fs filename = flask_response (fst (serve_audio cfg fs filename))"

definition files_opened :: "config \<Rightarrow> filesystem \<Rightarrow> string \<Rightarrow> ppath list" where
  "files_opened cfg fs filename = snd (serve_audio cfg fs filename)"

section \<open>Notions used in the verification\<close>

text \<open>The characters that \<open>urlparse\<close> leaves alone and keeps in the place where they are.\<close>

definition uri_plain :: "char \<Rightarrow> bool" where
  "uri_plain c =
     (is_ascii c \<and> \<not> unsafe_url_byte c \<and> c \<noteq> CHR ''/'' \<and> c \<noteq> CHR ''?''
      \<and> c \<noteq> CHR ''#'' \<and> c \<noteq> CHR '';'' \<and> c \<noteq> CHR ''['' \<and> c \<noteq> CHR '']'')"

definition digits :: string where
  "digits = ''0123456789''"

text \<open>A component that names an entry: not empty, not \<open>.\<close>, not \<open>..\<close>.\<close>

definition plain :: "string \<Rightarrow> bool" where
  "plain c = (c \<noteq> [] \<and> c \<noteq> ''.'' \<and> c \<noteq> ''..'')"

definition is_link :: "(ppath \<Rightarrow> node option) \<Rightarrow> ppath \<Rightarrow> bool" where
  "is_link fs p = (case fs p of Some (Symlink t) \<Rightarrow> True | _ \<Rightarrow> False)"

text \<open>A real path: every component names an entry and no prefix below the root is a link.\<close>

definition real_path :: "(ppath \<Rightarrow> node option) \<Rightarrow> ppath \<Rightarrow> bool" where
  "real_path fs p =
     ((\<forall>c \<in> set p. plain c) \<and> (\<forall>k \<le> length p. 0 < k \<longrightarrow> \<not> is_link fs (take k p)))"





section \<open>Example inputs\<close>

definition example_lib :: pylib where
  "example_lib =
     \<lparr> check_bracketed_host = (\<lambda>h. None), checknetloc = (\<lambda>n. None),
       parse_float = (\<lambda>s. None), float_of_int = (\<lambda>i. Some (Finite (of_int i))),
       str_of = (\<lambda>v. type_name v), bind_error = (\<lambda>f ps. f @ ''() got unexpected arguments'') \<rparr>"

definition example_cfg :: config where
  "example_cfg =
     \<lparr> HTTP_HOST = ''127.0.0.1'', HTTP_PORT = 8080, TEMP_AUDIO_DIR = [''srv'', ''temp_audio''] \<rparr>"








section \<open>Verification\<close>

subsection \<open>Strings and URIs\<close>

lemma split_on_none: "c \<notin> set s \<Longrightarrow> split_on c s = [s]"
  by (induction s) auto

lemma split_on_app: "c \<notin> set a \<Longrightarrow> split_on c (a @ c # s) = a # split_on c s"
  by (induction a) auto

lemma path_name_audio:
  assumes "CHR ''/'' \<notin> set f" "f \<noteq> []" "f \<noteq> ''.''"
  shows "path_name (''/audio/'' @ f) = f"
proof -
  have "split_on CHR ''/'' (''/audio/'' @ f) = [[], ''audio'', f]"
    using split_on_app[of "CHR ''/''" "''audio''" f] split_on_none[OF assms(1)] by simp
  then show ?thesis using assms by (simp add: path_name_def path_parts_def)
qed

lemma digit_char_in: "digit_char n \<in> set digits"
  unfolding digit_char_def digits_def by (rule nth_mem) simp

lemma str_nat_digits: "set (str_nat n) \<subseteq> set digits"
proof (induction n rule: str_nat.induct)
  case (1 n)
  show ?case
  proof (cases "n < 10")
    case True
    then have "str_nat n = [digit_char n]" by (subst str_nat.simps) simp
    then show ?thesis using digit_char_in by simp
  next
    case False
    then have "str_nat n = str_nat (n div 10) @ [digit_char n]" by (subst str_nat.simps) simp
    then show ?thesis using digit_char_in 1[OF False] by simp
  qed
qed

lemma str_int_chars: "set (str_int i) \<subseteq> insert CHR ''-'' (set digits)"
proof (cases "i < 0")
  case True
  then have "str_int i = CHR ''-'' # str_nat (nat (- i))" by (simp add: str_int_def)
  then show ?thesis using str_nat_digits[of "nat (- i)"] by auto
next
  case False
  then have "str_int i = str_nat (nat i)" by (simp add: str_int_def)
  then show ?thesis using str_nat_digits[of "nat i"] by auto
qed

lemma before_app: "c \<notin> set a \<Longrightarrow> before c (a @ c # s) = a"
  by (induction a) (auto simp: before_def)

lemma after_app: "c \<notin> set a \<Longrightarrow> after c (a @ c # s) = s"
  by (induction a) (auto simp: after_def)

lemma uri_plain_digits: "c \<in> set digits \<Longrightarrow> uri_plain c"
  unfolding digits_def
  by (auto simp: uri_plain_def is_ascii_def unsafe_url_byte_def)

lemma uri_plain_name_characters: "c \<in> set name_characters \<Longrightarrow> uri_plain c"
  unfolding name_characters_def
  by (auto simp: uri_plain_def is_ascii_def unsafe_url_byte_def)

lemma uri_plain_misc: "uri_plain CHR ''-''" "uri_plain CHR '':''" "uri_plain CHR ''.''"
  "uri_plain CHR ''t''" "uri_plain CHR ''m''" "uri_plain CHR ''p''" "uri_plain CHR ''w''"
  "uri_plain CHR ''a''" "uri_plain CHR ''v''"
  by (simp_all add: uri_plain_def is_ascii_def unsafe_url_byte_def)

lemma takeWhile_stop: "\<forall>x \<in> set a. P x \<Longrightarrow> \<not> P c \<Longrightarrow> takeWhile P (a @ c # s) = a"
  by (induction a) auto

lemma dropWhile_stop: "\<forall>x \<in> set a. P x \<Longrightarrow> \<not> P c \<Longrightarrow> dropWhile P (a @ c # s) = c # s"
  by (induction a) auto

lemma split_scheme_http: "split_scheme (''http:'' @ r) = (''http'', r)"
proof -
  have b: "before CHR '':'' (''http'' @ CHR '':'' # r) = ''http''"
    by (rule before_app) simp
  have a: "after CHR '':'' (''http'' @ CHR '':'' # r) = r"
    by (rule after_app) simp
  have l: "map lower ''http'' = ''http''" by (simp add: lower_def)
  have s: "\<forall>c \<in> set ''http''. c \<in> set scheme_chars" by (simp add: scheme_chars_def)
  have h: "hd ''http'' \<in> set ascii_letters" by (simp add: ascii_letters_def)
  show ?thesis using a b l s h by (simp add: split_scheme_def Let_def)
qed

lemma check_netloc_plain:
  assumes "\<forall>c \<in> set nl. uri_plain c"
  shows "check_netloc lib nl = None"
proof -
  have "CHR ''['' \<notin> set nl" "CHR '']'' \<notin> set nl" "\<forall>c \<in> set nl. is_ascii c"
    using assms by (auto simp: uri_plain_def)
  then show ?thesis by (simp add: check_netloc_def)
qed

lemma urlparse_http:
  assumes nl: "\<forall>c \<in> set nl. uri_plain c" and f: "\<forall>c \<in> set f. uri_plain c"
  shows "urlparse lib (''http://'' @ nl @ ''/audio/'' @ f) =
           Inr \<lparr> scheme = ''http'', netloc = nl, path = ''/audio/'' @ f, params = [],
                  query = [], fragment = [] \<rparr>"
proof -
  let ?u = "''http://'' @ nl @ ''/audio/'' @ f"
  let ?p = "''/audio/'' @ f"
  have d: "dropWhile c0_control_or_space ?u = ?u" by (simp add: c0_control_or_space_def)
  have "\<forall>c \<in> set ?u. \<not> unsafe_url_byte c"
    using nl f by (auto simp: uri_plain_def unsafe_url_byte_def)
  then have fl: "filter (\<lambda>c. \<not> unsafe_url_byte c) ?u = ?u" by (simp only: filter_True)
  have sc: "split_scheme ?u = (''http'', ''//'' @ nl @ ?p)"
    using split_scheme_http[of "''//'' @ nl @ ?p"] by simp
  have nd: "\<forall>x \<in> set nl. \<not> netloc_delim x" using nl by (auto simp: uri_plain_def netloc_delim_def)
  have sn: "splitnetloc (''//'' @ nl @ ?p) = (nl, ?p)"
    using takeWhile_stop[of nl "\<lambda>c. \<not> netloc_delim c" "CHR ''/''" "''audio/'' @ f"]
          dropWhile_stop[of nl "\<lambda>c. \<not> netloc_delim c" "CHR ''/''" "''audio/'' @ f"] nd
    by (simp add: splitnetloc_def netloc_delim_def)
  have cn: "check_netloc lib nl = None" using nl by (rule check_netloc_plain)
  have no: "CHR ''#'' \<notin> set ?p" "CHR ''?'' \<notin> set ?p" "CHR '';'' \<notin> set ?p"
    using f by (auto simp: uri_plain_def)
  show ?thesis
    unfolding urlparse_def using d fl sc sn cn no by (simp add: Let_def)
qed

lemma uri_filename_http:
  assumes nl: "\<forall>c \<in> set nl. uri_plain c" and f: "\<forall>c \<in> set f. uri_plain c"
    and ne: "f \<noteq> []" "f \<noteq> ''.''" "nl \<noteq> []"
  shows "uri_filename lib (''http://'' @ nl @ ''/audio/'' @ f) = Inr f"
proof -
  have "CHR ''/'' \<notin> set f" using f by (auto simp: uri_plain_def)
  then have pn: "path_name (''/audio/'' @ f) = f" using ne by (intro path_name_audio)
  show ?thesis
    unfolding uri_filename_def urlparse_http[OF nl f] using pn ne by (simp add: Let_def)
qed

lemma mkstemp_name_plain:
  assumes "\<forall>c \<in> set r. c \<in> set name_characters"
  shows "\<forall>c \<in> set (mkstemp_name r). uri_plain c"
proof
  fix c assume "c \<in> set (mkstemp_name r)"
  then have "c \<in> set ''tmp'' \<or> c \<in> set r \<or> c \<in> set ''.wav''"
    by (auto simp: mkstemp_name_def)
  then show "uri_plain c"
  proof (elim disjE)
    assume "c \<in> set ''tmp''"
    then show ?thesis using uri_plain_misc by auto
  next
    assume "c \<in> set r"
    then show ?thesis using assms uri_plain_name_characters by blast
  next
    assume "c \<in> set ''.wav''"
    then show ?thesis using uri_plain_misc by auto
  qed
qed

lemma mkstemp_name_nonempty: "mkstemp_name r \<noteq> []" "mkstemp_name r \<noteq> ''.''"
  by (simp_all add: mkstemp_name_def)

text \<open>
  Claim C3.  A file name of the store is \<open>tmp\<close>, characters of the allocator's alphabet,
  and \<open>.wav\<close>.  For a host of characters that a URI keeps in place, the URI that
  \<open>generate_speech\<close> builds from such a name is parsed by \<open>cleanup_audio\<close> back to
  exactly that name.
\<close>

theorem uri_round_trip:
  assumes "\<forall>c \<in> set r. c \<in> set name_characters"
    and "\<forall>c \<in> set (HTTP_HOST cfg). uri_plain c"
  shows "uri_filename lib (audio_uri_of cfg (mkstemp_name r)) = Inr (mkstemp_name r)"
proof -
  let ?nl = "HTTP_HOST cfg @ '':'' @ str_int (HTTP_PORT cfg)"
  have "\<forall>c \<in> set (str_int (HTTP_PORT cfg)). uri_plain c"
    using str_int_chars[of "HTTP_PORT cfg"] uri_plain_digits uri_plain_misc(1) by auto
  then have nl: "\<forall>c \<in> set ?nl. uri_plain c"
    using assms(2) uri_plain_misc(2) by auto
  have ne: "?nl \<noteq> []" by simp
  have "uri_filename lib (''http://'' @ ?nl @ ''/audio/'' @ mkstemp_name r) = Inr (mkstemp_name r)"
    using uri_filename_http[OF nl mkstemp_name_plain[OF assms(1)] mkstemp_name_nonempty ne] .
  then show ?thesis by (simp add: audio_uri_of_def)
qed

theorem uri_round_trip_witness:
  "list_all (\<lambda>c. c \<in> set name_characters) ''ab12cd_9''
   \<and> list_all uri_plain (HTTP_HOST example_cfg)
   \<and> audio_uri_of example_cfg (mkstemp_name ''ab12cd_9'') = ''http://127.0.0.1:8080/audio/tmpab12cd_9.wav''
   \<and> uri_filename example_lib ''http://127.0.0.1:8080/audio/tmpab12cd_9.wav'' = Inr ''tmpab12cd_9.wav''"
proof -
  have h1: "\<forall>c \<in> set ''ab12cd_9''. c \<in> set name_characters"
    by (simp add: name_characters_def)
  have h2: "\<forall>c \<in> set (HTTP_HOST example_cfg). uri_plain c"
    by (simp add: example_cfg_def uri_plain_def is_ascii_def unsafe_url_byte_def)
  have u: "audio_uri_of example_cfg (mkstemp_name ''ab12cd_9'') = ''http://127.0.0.1:8080/audio/tmpab12cd_9.wav''"
    by (simp add: audio_uri_of_def example_cfg_def mkstemp_name_def str_int_def str_nat.simps digit_char_def)
  have n: "mkstemp_name ''ab12cd_9'' = ''tmpab12cd_9.wav''" by (simp add: mkstemp_name_def)
  show ?thesis
    using h1 h2 u n uri_round_trip[OF h1 h2, of example_lib] by (simp add: list_all_iff)
qed

subsection \<open>The error envelope\<close>








subsection \<open>Missing arguments\<close>



end
